theory Spec2Isabelle
  imports Main "HOL-Library.Word" "HOL-Library.Sublist"
begin

section \<open>Data model of \<open>transport_connection.cpp\<close>\<close>

text \<open>
  The model is the release build: \<open>assert\<close> is compiled out, so the assertions of
  \<open>Connect\<close> are not branches. Reading \<open>front()\<close> of an empty vector, indexing a vector
  out of range and calling through a null pointer are undefined behaviour in C++; the
  model gives them the outcome \<open>UndefinedBehaviour\<close>.
\<close>

record ServerEntry =
  serverAddress :: string
  webServerSecret :: string

record SessionInfo =
  m_serverEntry :: ServerEntry
  m_clientSessionID :: string
  m_handshakeFields :: "string list"

definition GetClientSessionID :: "SessionInfo \<Rightarrow> string" where
  "GetClientSessionID s = m_clientSessionID s"

definition GetWebServerSecret :: "SessionInfo \<Rightarrow> string" where
  "GetWebServerSecret s = webServerSecret (m_serverEntry s)"

text \<open>The exception types that cross \<open>Connect\<close> and \<open>WaitForDisconnect\<close>:
  \<open>TransportConnection::TryNextServer\<close>, \<open>ITransport::TransportFailed\<close>,
  \<open>IWorkerThread::Error\<close> with its message, \<open>std::exception\<close> with its message, and
  any other type a collaborator throws. Only \<open>TransportFailed\<close> is caught by the handler
  of line 207; the others reach \<open>catch(...)\<close>.\<close>

datatype exn =
  TryNextServer
  | TransportFailed
  | WorkerError string
  | StdException string
  | OtherException string

datatype 'a result = Returned 'a | Raised exn | UndefinedBehaviour

datatype 'a call = Returns 'a | Throws exn

datatype ReqLevel = FULL | ONLY_IF_TRANSPORT

text \<open>The \<open>ITransport\<close> interface as \<open>TransportConnection\<close> uses it; its declaration
  is in \<open>transport.h\<close>. \<open>GetMultiConnectCount\<close> is an unsigned count, compared with
  \<open>size()\<close>. \<open>Transport_Connect\<close> is the blocking connect: it returns the value it
  stores in \<open>chosenSessionInfoIndex\<close> or throws.\<close>

record ITransport =
  IsHandshakeRequired :: "ServerEntry \<Rightarrow> bool"
  GetMultiConnectCount :: nat
  GetTransportProtocolName :: string
  GetLocalProxyParentPort :: nat
  Transport_Connect :: "SessionInfo list \<Rightarrow> int call"

record LocalProxy =
  lp_sessionInfo :: SessionInfo
  lp_parentPort :: nat
  lp_splitTunnelingFilePath :: string

text \<open>The calls made on collaborators, in program order. A request and a parse carry
  what the call returned.\<close>

datatype event =
  EvDeleteFile string
  | EvMakeRequest ReqLevel string bool string
  | EvParseHandshakeResponse string bool
  | EvSynchReset
  | EvTransportConnect
  | EvLocalProxyNew
  | EvLocalProxyStart
  | EvSettingsApply
  | EvLocalProxyUpdateSessionInfo SessionInfo
  | EvTransportUpdateSessionInfo SessionInfo
  | EvWaitForMultipleObjects
  | EvLocalProxyStop
  | EvTransportStop
  | EvTransportCleanup
  | EvSettingsRevert
  | EvLocalProxyDelete

text \<open>What the code takes from outside this file: \<open>SessionInfo::Set\<close>,
  \<open>DeleteFile\<close> with \<open>GetLastError\<close>, \<open>ServerRequest::MakeRequest\<close> (its return value
  and the response it stores), \<open>SessionInfo::ParseHandshakeResponse\<close> (its return value
  and the session it leaves), \<open>LocalProxy::Start\<close>, \<open>WaitForMultipleObjects\<close>, and the
  embedded values.\<close>

record Env =
  SessionInfo_Set :: "ServerEntry \<Rightarrow> SessionInfo"
  DeleteFile :: "string \<Rightarrow> bool \<times> 32 word"
  MakeRequest :: "ReqLevel \<Rightarrow> SessionInfo \<Rightarrow> string \<Rightarrow> bool \<times> string"
  ParseHandshakeResponse :: "string \<Rightarrow> SessionInfo \<Rightarrow> bool \<times> SessionInfo"
  LocalProxy_Start :: bool
  WaitForMultipleObjects :: "32 word"
  PROPAGATION_CHANNEL_ID :: string
  SPONSOR_ID :: string
  CLIENT_VERSION :: string

text \<open>Modelled from the spec: the macro \<open>HTTP_HANDSHAKE_REQUEST_PATH\<close> of \<open>config.h\<close>,
  which is not among the sources; the spec gives the path the form
  \<open>/handshake?client_session_id=...\<close>.\<close>

definition HTTP_HANDSHAKE_REQUEST_PATH :: string where
  "HTTP_HANDSHAKE_REQUEST_PATH = ''/handshake''"

text \<open>Windows SDK constants.\<close>

definition ERROR_FILE_NOT_FOUND :: "32 word" where
  "ERROR_FILE_NOT_FOUND = 2"

definition WAIT_OBJECT_0 :: "32 word" where
  "WAIT_OBJECT_0 = 0"

text \<open>\<open>NarrowToTString\<close> widens each character; on the model's strings it changes nothing.\<close>

definition NarrowToTString :: "string \<Rightarrow> string" where
  "NarrowToTString s = s"

text \<open>The members of \<open>TransportConnection\<close>. A null pointer is \<open>None\<close>.\<close>

record TransportConnection =
  m_transport :: "ITransport option"
  m_localProxy :: "LocalProxy option"
  m_sessionInfo :: SessionInfo

section \<open>Cleanup\<close>

text \<open>Lines 309-325. The result is the object after the call and the calls made.\<close>

definition Cleanup :: "TransportConnection \<Rightarrow> TransportConnection \<times> event list" where
  "Cleanup c =
     (c\<lparr>m_localProxy := None\<rparr>,
      [EvSettingsRevert]
      @ (case m_transport c of None \<Rightarrow> [] | Some t \<Rightarrow> [EvTransportStop, EvTransportCleanup])
      @ (case m_localProxy c of None \<Rightarrow> [] | Some p \<Rightarrow> [EvLocalProxyDelete]))"

section \<open>WaitForDisconnect\<close>

text \<open>Lines 223-246. Both pointers are dereferenced before anything else. The
  comparison is unsigned, with \<open>waitHandlesCount = 2\<close>.\<close>

definition WaitForDisconnect ::
  "Env \<Rightarrow> TransportConnection \<Rightarrow> unit result \<times> TransportConnection \<times> event list" where
  "WaitForDisconnect env c =
     (case m_transport c of
        None \<Rightarrow> (UndefinedBehaviour, c, [])
      | Some t \<Rightarrow>
          (case m_localProxy c of
             None \<Rightarrow> (UndefinedBehaviour, c, [])
           | Some p \<Rightarrow>
               (let waitHandlesCount = (2 :: 32 word);
                    res = WaitForMultipleObjects env;
                    (c', evs) = Cleanup c;
                    trace = [EvWaitForMultipleObjects, EvLocalProxyStop, EvTransportStop] @ evs
                in if res > WAIT_OBJECT_0 + waitHandlesCount - 1
                   then (Raised (WorkerError ''WaitForMultipleObjects failed''), c', trace)
                   else (Returned (), c', trace))))"

section \<open>The handshake\<close>

text \<open>Lines 286-307. The loop over \<open>serverEntries\<close> appends one component per entry.
  \<open>m_transport\<close> is dereferenced for the protocol name.\<close>

fun known_servers :: "ServerEntry list \<Rightarrow> string" where
  "known_servers [] = []"
| "known_servers (e # es) =
     ''&known_server='' @ NarrowToTString (serverAddress e) @ known_servers es"

definition GetHandshakeRequestPath ::
  "Env \<Rightarrow> TransportConnection \<Rightarrow> SessionInfo \<Rightarrow> ServerEntry list \<Rightarrow> string option" where
  "GetHandshakeRequestPath env c sessionInfo serverEntries =
     (case m_transport c of
        None \<Rightarrow> None
      | Some t \<Rightarrow>
          Some (HTTP_HANDSHAKE_REQUEST_PATH
            @ ''?client_session_id='' @ NarrowToTString (GetClientSessionID sessionInfo)
            @ ''&propagation_channel_id='' @ NarrowToTString (PROPAGATION_CHANNEL_ID env)
            @ ''&sponsor_id='' @ NarrowToTString (SPONSOR_ID env)
            @ ''&client_version='' @ NarrowToTString (CLIENT_VERSION env)
            @ ''&server_secret='' @ NarrowToTString (GetWebServerSecret sessionInfo)
            @ ''&relay_protocol='' @ GetTransportProtocolName t
            @ known_servers serverEntries))"

text \<open>Lines 248-284. The session is passed by reference: the second component is the
  session after the call, also when the call throws.\<close>

definition DoHandshake ::
  "Env \<Rightarrow> TransportConnection \<Rightarrow> bool \<Rightarrow> SessionInfo \<Rightarrow> ServerEntry list
     \<Rightarrow> bool result \<times> SessionInfo \<times> event list" where
  "DoHandshake env c preTransport sessionInfo serverEntries =
     (case GetHandshakeRequestPath env c sessionInfo serverEntries of
        None \<Rightarrow> (UndefinedBehaviour, sessionInfo, [])
      | Some handshakeRequestPath \<Rightarrow>
          (let reqLevel = (if preTransport then FULL else ONLY_IF_TRANSPORT);
               (ok, handshakeResponse) = MakeRequest env reqLevel sessionInfo handshakeRequestPath;
               ev1 = EvMakeRequest reqLevel handshakeRequestPath ok handshakeResponse
           in if \<not> ok \<or> length handshakeResponse \<le> 0
              then (Returned False, sessionInfo, [ev1])
              else (let (parsed, sessionInfo') =
                          ParseHandshakeResponse env handshakeResponse sessionInfo;
                        ev2 = EvParseHandshakeResponse handshakeResponse parsed
                    in if \<not> parsed
                       then (Raised TryNextServer, sessionInfo', [ev1, ev2])
                       else (Returned True, sessionInfo', [ev1, ev2]))))"

section \<open>Connect\<close>

subsection \<open>The vector operations of the filtering step\<close>

definition ServerEntry_default :: ServerEntry where
  "ServerEntry_default = \<lparr>serverAddress = [], webServerSecret = []\<rparr>"

text \<open>\<open>vector::resize(n)\<close>: the first \<open>n\<close> elements, padded with default-constructed
  ones when the vector is shorter.\<close>

definition vector_resize :: "nat \<Rightarrow> ServerEntry list \<Rightarrow> ServerEntry list" where
  "vector_resize n es =
     (if n \<le> length es then take n es else es @ replicate (n - length es) ServerEntry_default)"

text \<open>\<open>vector::erase(begin() + i)\<close>, for an index in range.\<close>

definition vector_erase :: "nat \<Rightarrow> ServerEntry list \<Rightarrow> ServerEntry list" where
  "vector_erase i es = take i es @ drop (Suc i) es"

text \<open>Lines 88-94, the loop \<open>for (int i = size()-1; i >= 0; i--)\<close>. The last argument
  is \<open>i + 1\<close>: the loop ends when it is \<open>0\<close>. The index stays in range, since an erase
  at \<open>i\<close> leaves at least \<open>i\<close> elements.\<close>

fun erase_handshake_required ::
  "ITransport \<Rightarrow> ServerEntry list \<Rightarrow> nat \<Rightarrow> ServerEntry list" where
  "erase_handshake_required transport es 0 = es"
| "erase_handshake_required transport es (Suc i) =
     erase_handshake_required transport
       (if IsHandshakeRequired transport (es ! i) then vector_erase i es else es) i"

subsection \<open>The body of the try block\<close>

text \<open>Lines 120-162: the leftover file, the pre-handshake, the transport's connect and
  the chosen session. The value returned is \<open>handshakeDone\<close>.\<close>

definition Connect_establish ::
  "Env \<Rightarrow> TransportConnection \<Rightarrow> ITransport \<Rightarrow> ServerEntry list \<Rightarrow> SessionInfo list \<Rightarrow> string
     \<Rightarrow> bool result \<times> TransportConnection \<times> event list" where
  "Connect_establish env c transport io_serverEntries sessionInfoCandidates splitTunnelingFilePath =
     (let (deleted, lastError) = DeleteFile env splitTunnelingFilePath;
          evs0 = (if length splitTunnelingFilePath > 0
                  then [EvDeleteFile splitTunnelingFilePath] else [])
      in if length splitTunnelingFilePath > 0 \<and> \<not> deleted \<and> lastError \<noteq> ERROR_FILE_NOT_FOUND
         then (Raised (StdException ''TransportConnection::Connect - DeleteFile failed''), c, evs0)
         else if io_serverEntries = [] then (UndefinedBehaviour, c, evs0)
         else
           (let (hs, candidates, evs1) =
                  (if IsHandshakeRequired transport (hd io_serverEntries)
                   then (case DoHandshake env c True (hd sessionInfoCandidates) io_serverEntries of
                           (Returned b, s', evs) \<Rightarrow>
                             (if \<not> b then Raised TryNextServer else Returned True,
                              sessionInfoCandidates[0 := s'], evs)
                         | (Raised e, s', evs) \<Rightarrow> (Raised e, sessionInfoCandidates[0 := s'], evs)
                         | (UndefinedBehaviour, s', evs) \<Rightarrow>
                             (UndefinedBehaviour, sessionInfoCandidates[0 := s'], evs))
                   else (Returned False, sessionInfoCandidates, []))
            in case hs of
                 Raised e \<Rightarrow> (Raised e, c, evs0 @ evs1)
               | UndefinedBehaviour \<Rightarrow> (UndefinedBehaviour, c, evs0 @ evs1)
               | Returned handshakeDone \<Rightarrow>
                   (let evs2 = evs0 @ evs1 @ [EvSynchReset, EvTransportConnect]
                    in case Transport_Connect transport candidates of
                         Throws e \<Rightarrow> (Raised e, c, evs2)
                       | Returns chosenSessionInfoIndex \<Rightarrow>
                           if chosenSessionInfoIndex < 0
                              \<or> chosenSessionInfoIndex \<ge> int (length candidates)
                           then (UndefinedBehaviour, c, evs2)
                           else (Returned handshakeDone,
                                 c\<lparr>m_sessionInfo := candidates ! nat chosenSessionInfoIndex\<rparr>,
                                 evs2))))"

text \<open>Lines 164-205: the local proxy, the system proxy settings, the post-handshake and
  the propagation of the session. The stats collector and the settings object that the
  local proxy is constructed with play no part in the control flow and are left out.\<close>

definition Connect_finish ::
  "Env \<Rightarrow> TransportConnection \<Rightarrow> ITransport \<Rightarrow> ServerEntry list \<Rightarrow> string \<Rightarrow> bool \<Rightarrow> bool
     \<Rightarrow> unit result \<times> TransportConnection \<times> event list" where
  "Connect_finish env c transport io_serverEntries splitTunnelingFilePath disallowHandshake
       handshakeDone =
     (let c1 = c\<lparr>m_localProxy :=
                  Some \<lparr>lp_sessionInfo = m_sessionInfo c,
                        lp_parentPort = GetLocalProxyParentPort transport,
                        lp_splitTunnelingFilePath = splitTunnelingFilePath\<rparr>\<rparr>
      in if \<not> LocalProxy_Start env
         then (Raised (WorkerError ''LocalProxy::Start failed''), c1,
               [EvLocalProxyNew, EvLocalProxyStart])
         else
           (let evs1 = [EvLocalProxyNew, EvLocalProxyStart, EvSettingsApply];
                (hs, c2, evs2) =
                  (if \<not> handshakeDone \<and> \<not> disallowHandshake
                   then (case DoHandshake env c1 False (m_sessionInfo c1) io_serverEntries of
                           (r, s', evs) \<Rightarrow> (r, c1\<lparr>m_sessionInfo := s'\<rparr>, evs))
                   else (Returned True, c1, []))
            in case hs of
                 Raised e \<Rightarrow> (Raised e, c2, evs1 @ evs2)
               | UndefinedBehaviour \<Rightarrow> (UndefinedBehaviour, c2, evs1 @ evs2)
               | Returned b \<Rightarrow>
                   (Returned (),
                    c2\<lparr>m_localProxy :=
                         map_option (\<lambda>p. p\<lparr>lp_sessionInfo := m_sessionInfo c2\<rparr>) (m_localProxy c2)\<rparr>,
                    evs1 @ evs2 @ [EvLocalProxyUpdateSessionInfo (m_sessionInfo c2),
                                   EvTransportUpdateSessionInfo (m_sessionInfo c2)])))"

text \<open>Lines 107-221: the candidates, \<open>m_transport = transport\<close>, the try block and its
  two handlers.\<close>

definition Connect_attempt ::
  "Env \<Rightarrow> TransportConnection \<Rightarrow> ITransport \<Rightarrow> ServerEntry list \<Rightarrow> string \<Rightarrow> bool
     \<Rightarrow> unit result \<times> TransportConnection \<times> event list" where
  "Connect_attempt env c transport io_serverEntries splitTunnelingFilePath disallowHandshake =
     (let sessionInfoCandidates = map (SessionInfo_Set env) io_serverEntries;
          c0 = c\<lparr>m_transport := Some transport\<rparr>;
          (r, c2, evs) =
            (case Connect_establish env c0 transport io_serverEntries sessionInfoCandidates
                    splitTunnelingFilePath of
               (Returned handshakeDone, c1, evs1) \<Rightarrow>
                 (case Connect_finish env c1 transport io_serverEntries splitTunnelingFilePath
                         disallowHandshake handshakeDone of
                    (r, c2, evs2) \<Rightarrow> (r, c2, evs1 @ evs2))
             | (Raised e, c1, evs1) \<Rightarrow> (Raised e, c1, evs1)
             | (UndefinedBehaviour, c1, evs1) \<Rightarrow> (UndefinedBehaviour, c1, evs1))
      in case r of
           Raised TransportFailed \<Rightarrow>
             (case Cleanup c2 of (c3, evs3) \<Rightarrow> (Raised TryNextServer, c3, evs @ evs3))
         | Raised e \<Rightarrow> (case Cleanup c2 of (c3, evs3) \<Rightarrow> (Raised e, c3, evs @ evs3))
         | _ \<Rightarrow> (r, c2, evs))"

text \<open>Lines 47-221. The result is the outcome, \<open>io_serverEntries\<close> as the caller finds
  it, the object and the calls made.\<close>

definition Connect ::
  "Env \<Rightarrow> TransportConnection \<Rightarrow> ITransport \<Rightarrow> ServerEntry list \<Rightarrow> string \<Rightarrow> bool
     \<Rightarrow> unit result \<times> ServerEntry list \<times> TransportConnection \<times> event list" where
  "Connect env c transport io_serverEntries splitTunnelingFilePath disallowHandshake =
     (if io_serverEntries = [] then (UndefinedBehaviour, io_serverEntries, c, [])
      else if IsHandshakeRequired transport (hd io_serverEntries)
      then (let es = vector_resize 1 io_serverEntries
            in if disallowHandshake then (Raised TryNextServer, es, c, [])
               else (case Connect_attempt env c transport es splitTunnelingFilePath
                            disallowHandshake of
                       (r, c', evs) \<Rightarrow> (r, es, c', evs)))
      else (let es1 = erase_handshake_required transport io_serverEntries (length io_serverEntries);
                es = (if length es1 > GetMultiConnectCount transport
                      then vector_resize (GetMultiConnectCount transport) es1 else es1)
            in case Connect_attempt env c transport es splitTunnelingFilePath disallowHandshake of
                 (r, c', evs) \<Rightarrow> (r, es, c', evs)))"

section \<open>Observations on the calls made\<close>

text \<open>The calls lines 120-162 can make: the file deletion, a request at level \<open>FULL\<close>
  with its parse, the reset of the synchronisation object and the transport's connect.\<close>

fun establish_event :: "event \<Rightarrow> bool" where
  "establish_event (EvDeleteFile f) = True"
| "establish_event (EvMakeRequest l p ok resp) = (l = FULL)"
| "establish_event (EvParseHandshakeResponse resp b) = True"
| "establish_event EvSynchReset = True"
| "establish_event EvTransportConnect = True"
| "establish_event e = False"

text \<open>The calls that stop a collaborator: \<open>Stop\<close> on either, and the \<open>delete\<close> of the
  local proxy.\<close>

fun stops_collaborator :: "event \<Rightarrow> bool" where
  "stops_collaborator EvLocalProxyStop = True"
| "stops_collaborator EvTransportStop = True"
| "stops_collaborator EvLocalProxyDelete = True"
| "stops_collaborator e = False"

text \<open>No collaborator is stopped before the first \<open>Revert\<close>.\<close>

fun revert_before_stops :: "event list \<Rightarrow> bool" where
  "revert_before_stops [] = True"
| "revert_before_stops (e # es) =
     (if e = EvSettingsRevert then True
      else if stops_collaborator e then False
      else revert_before_stops es)"

section \<open>Concrete collaborators\<close>

definition entry_a :: ServerEntry where
  "entry_a = \<lparr>serverAddress = ''192.0.2.1'', webServerSecret = ''aa''\<rparr>"

definition entry_b :: ServerEntry where
  "entry_b = \<lparr>serverAddress = ''192.0.2.2'', webServerSecret = ''bb''\<rparr>"

definition entry_c :: ServerEntry where
  "entry_c = \<lparr>serverAddress = ''192.0.2.3'', webServerSecret = ''cc''\<rparr>"

text \<open>An entry without the information a direct connection needs.\<close>

definition entry_bare :: ServerEntry where
  "entry_bare = \<lparr>serverAddress = ''192.0.2.9'', webServerSecret = []\<rparr>"

text \<open>A transport that connects two candidates at once and needs a pre-handshake for an
  entry without a secret; its connect chooses the first candidate.\<close>

definition transport_ssh :: ITransport where
  "transport_ssh =
     \<lparr>IsHandshakeRequired = (\<lambda>e. webServerSecret e = []),
      GetMultiConnectCount = 2,
      GetTransportProtocolName = ''SSH'',
      GetLocalProxyParentPort = 1080,
      Transport_Connect = (\<lambda>cs. Returns 0)\<rparr>"

text \<open>The same transport declaring that it connects no candidate at once.\<close>

definition transport_zero :: ITransport where
  "transport_zero = transport_ssh\<lparr>GetMultiConnectCount := 0\<rparr>"

definition session_of :: "ServerEntry \<Rightarrow> SessionInfo" where
  "session_of e = \<lparr>m_serverEntry = e, m_clientSessionID = ''0F'', m_handshakeFields = []\<rparr>"

text \<open>Every collaborator succeeds; the wait reports the first handle.\<close>

definition env_ok :: Env where
  "env_ok =
     \<lparr>SessionInfo_Set = session_of,
      DeleteFile = (\<lambda>f. (True, 0)),
      MakeRequest = (\<lambda>l s p. (True, ''Homepage: x'')),
      ParseHandshakeResponse = (\<lambda>resp s. (True, s\<lparr>m_handshakeFields := [resp]\<rparr>)),
      LocalProxy_Start = True,
      WaitForMultipleObjects = 0,
      PROPAGATION_CHANNEL_ID = ''P1'',
      SPONSOR_ID = ''S1'',
      CLIENT_VERSION = ''42''\<rparr>"

text \<open>The handshake request gets no response.\<close>

definition env_no_response :: Env where
  "env_no_response = env_ok\<lparr>MakeRequest := (\<lambda>l s p. (False, []))\<rparr>"

text \<open>The handshake response is present and does not parse.\<close>

definition env_malformed :: Env where
  "env_malformed = env_ok\<lparr>ParseHandshakeResponse := (\<lambda>resp s. (False, s))\<rparr>"

definition env_start_fails :: Env where
  "env_start_fails = env_ok\<lparr>LocalProxy_Start := False\<rparr>"

text \<open>\<open>DeleteFile\<close> fails with \<open>ERROR_ACCESS_DENIED\<close>.\<close>

definition env_delete_fails :: Env where
  "env_delete_fails = env_ok\<lparr>DeleteFile := (\<lambda>f. (False, 5))\<rparr>"

text \<open>The wait returns \<open>WAIT_FAILED\<close>.\<close>

definition env_wait_failed :: Env where
  "env_wait_failed = env_ok\<lparr>WaitForMultipleObjects := 0xFFFFFFFF\<rparr>"

text \<open>The object as the constructor leaves it (lines 31-35).\<close>

definition conn_new :: TransportConnection where
  "conn_new = \<lparr>m_transport = None, m_localProxy = None,
                 m_sessionInfo = \<lparr>m_serverEntry = ServerEntry_default, m_clientSessionID = [],
                                  m_handshakeFields = []\<rparr>\<rparr>"

text \<open>The object after a successful \<open>Connect\<close> to \<open>entry_a\<close>.\<close>

definition conn_connected :: TransportConnection where
  "conn_connected = fst (snd (snd (Connect env_ok conn_new transport_ssh [entry_a] [] False)))"

section \<open>The filtering step\<close>

lemma erase_handshake_required_take:
  "n \<le> length es \<Longrightarrow>
     erase_handshake_required t es n =
       filter (\<lambda>e. \<not> IsHandshakeRequired t e) (take n es) @ drop n es"
proof (induction n arbitrary: es)
  case 0
  then show ?case by simp
next
  case (Suc n)
  then have n: "n < length es" by simp
  show ?case
  proof (cases "IsHandshakeRequired t (es ! n)")
    case True
    have "n \<le> length (vector_erase n es)"
      using n by (simp add: vector_erase_def)
    then have "erase_handshake_required t (vector_erase n es) n =
        filter (\<lambda>e. \<not> IsHandshakeRequired t e) (take n (vector_erase n es))
          @ drop n (vector_erase n es)"
      by (rule Suc.IH)
    then show ?thesis
      using True n by (simp add: vector_erase_def take_Suc_conv_app_nth)
  next
    case False
    have "erase_handshake_required t es n =
        filter (\<lambda>e. \<not> IsHandshakeRequired t e) (take n es) @ drop n es"
      using n by (intro Suc.IH) simp
    then show ?thesis
      using False n by (simp add: take_Suc_conv_app_nth Cons_nth_drop_Suc)
  qed
qed

lemma erase_handshake_required_filter:
  "erase_handshake_required t es (length es) = filter (\<lambda>e. \<not> IsHandshakeRequired t e) es"
  by (simp add: erase_handshake_required_take)

lemma vector_resize_1: "es \<noteq> [] \<Longrightarrow> vector_resize (Suc 0) es = [hd es]"
  by (cases es) (simp_all add: vector_resize_def)

lemma vector_resize_shorter: "n < length es \<Longrightarrow> vector_resize n es = take n es"
  by (simp add: vector_resize_def)

lemma Connect_entries:
  assumes "io \<noteq> []"
  shows "fst (snd (Connect env c t io p d)) =
       (if IsHandshakeRequired t (hd io) then [hd io]
        else take (GetMultiConnectCount t) (filter (\<lambda>e. \<not> IsHandshakeRequired t e) io))"
  using assms
  by (simp add: Connect_def Let_def vector_resize_1 vector_resize_shorter
        erase_handshake_required_filter split: prod.splits)

text \<open>For a non-empty input the list \<open>Connect\<close> leaves is empty exactly when the first
  entry needs no pre-handshake and the multi-connect count is zero.\<close>

lemma Connect_filtered_empty_iff:
  assumes "io \<noteq> []"
  shows "(fst (snd (Connect env c t io p d)) = []) =
         (\<not> IsHandshakeRequired t (hd io) \<and> GetMultiConnectCount t = 0)"
proof (cases "IsHandshakeRequired t (hd io)")
  case True
  with assms show ?thesis by (simp add: Connect_entries)
next
  case False
  have "hd io \<in> set io" using assms by simp
  with False have "filter (\<lambda>e. \<not> IsHandshakeRequired t e) io \<noteq> []"
    by (auto simp: filter_empty_conv)
  with assms False show ?thesis
    by (simp add: Connect_entries)
qed

text \<open>And then \<open>Connect\<close> signals nothing for the empty list: it reaches the read of
  \<open>front()\<close> at line 128, or the failure of \<open>DeleteFile\<close> before it.\<close>

lemma Connect_filtered_empty_outcome:
  assumes "io \<noteq> []" and "fst (snd (Connect env c t io p d)) = []"
  shows "fst (Connect env c t io p d) = UndefinedBehaviour \<or>
         fst (Connect env c t io p d) =
           Raised (StdException ''TransportConnection::Connect - DeleteFile failed'')"
proof -
  from assms have req: "\<not> IsHandshakeRequired t (hd io)" and n: "GetMultiConnectCount t = 0"
    by (simp_all add: Connect_filtered_empty_iff)
  have es: "erase_handshake_required t io (length io) \<noteq> []"
  proof -
    have "hd io \<in> set io" using assms(1) by simp
    with req show ?thesis
      by (auto simp: erase_handshake_required_filter filter_empty_conv)
  qed
  have "fst (Connect env c t io p d) = fst (Connect_attempt env c t [] p d)"
    using assms(1) req n es
    by (simp add: Connect_def Let_def vector_resize_def split: prod.splits)
  then show ?thesis
    by (simp add: Connect_attempt_def Connect_establish_def Cleanup_def Let_def
          split: prod.splits option.splits)
qed

lemmas example_defs =
  entry_a_def entry_b_def entry_c_def entry_bare_def transport_ssh_def transport_zero_def
  session_of_def env_ok_def env_no_response_def env_malformed_def env_start_fails_def
  env_delete_fails_def env_wait_failed_def conn_new_def

lemmas model_defs =
  Connect_def Connect_attempt_def Connect_establish_def Connect_finish_def DoHandshake_def
  GetHandshakeRequestPath_def Cleanup_def vector_resize_def vector_erase_def
  HTTP_HANDSHAKE_REQUEST_PATH_def NarrowToTString_def GetClientSessionID_def
  GetWebServerSecret_def ERROR_FILE_NOT_FOUND_def Let_def

section \<open>The try block and its handlers\<close>

lemma DoHandshake_pre_events:
  "DoHandshake env c True s es = (r, s', evs) \<Longrightarrow> list_all establish_event evs"
  by (auto simp: DoHandshake_def Let_def split: option.splits prod.splits if_splits)

lemma Connect_establish_events:
  assumes "Connect_establish env c t es cands p = (r, c', evs)"
  shows "list_all establish_event evs"
  using assms
  by (auto simp: Connect_establish_def Let_def
           split: prod.splits if_splits result.splits call.splits
           dest!: DoHandshake_pre_events)

lemma Connect_establish_handles:
  assumes "Connect_establish env c t es cands p = (r, c', evs)"
  shows "m_transport c' = m_transport c \<and> m_localProxy c' = m_localProxy c"
  using assms
  by (auto simp: Connect_establish_def Let_def
           split: prod.splits if_splits result.splits call.splits)

lemma Connect_establish_not_done:
  assumes "Connect_establish env c t es cands p = (Returned False, c', evs)"
  shows "EvParseHandshakeResponse resp b \<notin> set evs"
  using assms
  by (auto simp: Connect_establish_def Let_def
           split: prod.splits if_splits result.splits call.splits)

lemma Connect_finish_start_fails:
  "\<not> LocalProxy_Start env \<Longrightarrow>
   Connect_finish env c t es p d h = (r, c', evs) \<Longrightarrow>
     r = Raised (WorkerError ''LocalProxy::Start failed'') \<and>
     evs = [EvLocalProxyNew, EvLocalProxyStart] \<and>
     m_transport c' = m_transport c \<and> m_localProxy c' \<noteq> None"
  by (auto simp: Connect_finish_def Let_def)

lemma Connect_finish_done:
  "Connect_finish env c t es p d True = (r, c', evs) \<Longrightarrow>
     EvMakeRequest l path ok resp \<notin> set evs"
  by (auto simp: Connect_finish_def Let_def split: if_splits)

lemma Connect_finish_post:
  assumes "Connect_finish env c t es p d False = (r, c', evs)"
    and "EvMakeRequest ONLY_IF_TRANSPORT path ok resp \<in> set evs"
  shows "(\<not> ok \<or> resp = [] \<longrightarrow> r = Returned ()) \<and>
         (EvParseHandshakeResponse resp False \<in> set evs \<longrightarrow> r = Raised TryNextServer) \<and>
         (EvParseHandshakeResponse resp False \<notin> set evs \<longrightarrow> r = Returned ()) \<and>
         m_transport c' = m_transport c \<and> m_localProxy c' \<noteq> None"
  using assms
  by (auto simp: Connect_finish_def DoHandshake_def GetHandshakeRequestPath_def Let_def
           split: if_splits option.splits prod.splits)

lemma Connect_attempt_of:
  assumes "Connect env c t io p d = (r, es, c', evs)" and "evs \<noteq> []"
  shows "Connect_attempt env c t es p d = (r, c', evs)"
  using assms
  by (auto simp: Connect_def Let_def split: if_splits prod.splits)

lemma Connect_attempt_start_fails:
  assumes run: "Connect_attempt env c t es p d = (r, c', evs)"
    and start: "EvLocalProxyStart \<in> set evs"
    and fails: "\<not> LocalProxy_Start env"
  shows "r = Raised (WorkerError ''LocalProxy::Start failed'') \<and>
         EvSettingsApply \<notin> set evs \<and>
         suffix [EvLocalProxyNew, EvLocalProxyStart, EvSettingsRevert, EvTransportStop,
                 EvTransportCleanup, EvLocalProxyDelete] evs \<and>
         m_localProxy c' = None"
proof -
  obtain r1 c1 evs1 where est:
    "Connect_establish env (c\<lparr>m_transport := Some t\<rparr>) t es (map (SessionInfo_Set env) es) p
       = (r1, c1, evs1)"
    by (metis prod_cases3)
  have evs1: "list_all establish_event evs1"
    using est by (rule Connect_establish_events)
  have no1: "EvLocalProxyStart \<notin> set evs1" "EvSettingsApply \<notin> set evs1"
    using evs1 by (auto simp: list_all_iff)
  have h1: "m_transport c1 = Some t"
    using Connect_establish_handles [OF est] by simp
  show ?thesis
  proof (cases r1)
    case (Returned h)
    obtain r2 c2 evs2 where fin: "Connect_finish env c1 t es p d h = (r2, c2, evs2)"
      by (metis prod_cases3)
    note f = Connect_finish_start_fails [OF fails fin]
    from run est Returned fin f h1 no1 show ?thesis
      by (auto simp: Connect_attempt_def Let_def Cleanup_def suffix_def split: option.splits)
  next
    case (Raised e)
    with run est no1 start show ?thesis
      by (auto simp: Connect_attempt_def Let_def Cleanup_def split: exn.splits option.splits)
  next
    case UndefinedBehaviour
    with run est no1 start show ?thesis
      by (auto simp: Connect_attempt_def Let_def)
  qed
qed

lemma Connect_attempt_post:
  assumes run: "Connect_attempt env c t es p d = (r, c', evs)"
    and post: "EvMakeRequest ONLY_IF_TRANSPORT path ok resp \<in> set evs"
  shows "(\<not> ok \<or> resp = [] \<longrightarrow> r = Returned ()) \<and>
         (EvParseHandshakeResponse resp False \<in> set evs \<longrightarrow>
            r = Raised TryNextServer \<and>
            suffix [EvSettingsRevert, EvTransportStop, EvTransportCleanup, EvLocalProxyDelete] evs) \<and>
         (EvParseHandshakeResponse resp False \<notin> set evs \<longrightarrow> r = Returned ())"
proof -
  obtain r1 c1 evs1 where est:
    "Connect_establish env (c\<lparr>m_transport := Some t\<rparr>) t es (map (SessionInfo_Set env) es) p
       = (r1, c1, evs1)"
    by (metis prod_cases3)
  have evs1: "list_all establish_event evs1"
    using est by (rule Connect_establish_events)
  have no1: "EvMakeRequest ONLY_IF_TRANSPORT path ok resp \<notin> set evs1"
    using evs1 by (auto simp: list_all_iff)
  have h1: "m_transport c1 = Some t"
    using Connect_establish_handles [OF est] by simp
  show ?thesis
  proof (cases r1)
    case (Returned h)
    obtain r2 c2 evs2 where fin: "Connect_finish env c1 t es p d h = (r2, c2, evs2)"
      by (metis prod_cases3)
    have in2: "EvMakeRequest ONLY_IF_TRANSPORT path ok resp \<in> set evs2"
      using run est Returned fin post no1
      by (auto simp: Connect_attempt_def Let_def Cleanup_def
               split: result.splits exn.splits option.splits)
    have h: "h = False"
      using Connect_finish_done [of env c1 t es p d r2 c2 evs2] fin in2 by (cases h) auto
    have no_parse: "EvParseHandshakeResponse resp False \<notin> set evs1"
      using est Returned h by (auto dest: Connect_establish_not_done)
    note f = Connect_finish_post [OF fin [unfolded h] in2]
    show ?thesis
    proof (cases "EvParseHandshakeResponse resp False \<in> set evs2")
      case True
      with f have r2: "r2 = Raised TryNextServer" by simp
      from f True have ok: "ok" "resp \<noteq> []" by auto
      from run est Returned fin r2 f h1 True ok show ?thesis
        by (auto simp: Connect_attempt_def Let_def Cleanup_def suffix_def split: option.splits)
    next
      case False
      with f have r2: "r2 = Returned ()" by simp
      from run est Returned fin r2 False no_parse show ?thesis
        by (auto simp: Connect_attempt_def Let_def)
    qed
  next
    case (Raised e)
    with run est no1 post show ?thesis
      by (auto simp: Connect_attempt_def Let_def Cleanup_def split: exn.splits option.splits)
  next
    case UndefinedBehaviour
    with run est no1 post show ?thesis
      by (auto simp: Connect_attempt_def Let_def)
  qed
qed

lemma Connect_projections:
  "Connect env c t io p d =
     (fst (Connect env c t io p d), fst (snd (Connect env c t io p d)),
      fst (snd (snd (Connect env c t io p d))), snd (snd (snd (Connect env c t io p d))))"
  by simp

section \<open>The order of teardown\<close>

lemma revert_before_stops_append:
  assumes "list_all (\<lambda>e. \<not> stops_collaborator e) xs"
  shows "revert_before_stops (xs @ EvSettingsRevert # ys)" and "revert_before_stops xs"
  using assms by (induction xs) auto

lemma Connect_finish_events:
  assumes "Connect_finish env c t es p d h = (r, c', evs)"
  shows "list_all (\<lambda>e. \<not> stops_collaborator e) evs"
  using assms
  by (auto simp: Connect_finish_def DoHandshake_def Let_def
           split: if_splits option.splits prod.splits result.splits)

lemma establish_event_no_stop: "establish_event e \<Longrightarrow> \<not> stops_collaborator e"
  by (cases e) auto

text \<open>Inside \<open>Connect\<close> the order of the note in \<open>Cleanup\<close> holds on every exit: no
  collaborator is stopped before the settings are reverted.\<close>

lemma Connect_revert_before_stops:
  assumes run: "Connect env c t io p d = (r, es, c', evs)"
  shows "revert_before_stops evs"
proof (cases "evs = []")
  case True
  then show ?thesis by simp
next
  case False
  with run have att: "Connect_attempt env c t es p d = (r, c', evs)"
    by (rule Connect_attempt_of)
  obtain r1 c1 evs1 where est:
    "Connect_establish env (c\<lparr>m_transport := Some t\<rparr>) t es (map (SessionInfo_Set env) es) p
       = (r1, c1, evs1)"
    by (metis prod_cases3)
  have "list_all establish_event evs1"
    using est by (rule Connect_establish_events)
  then have evs1: "list_all (\<lambda>e. \<not> stops_collaborator e) evs1"
    by (auto simp: list_all_iff establish_event_no_stop)
  show ?thesis
  proof (cases r1)
    case (Returned h)
    obtain r2 c2 evs2 where fin: "Connect_finish env c1 t es p d h = (r2, c2, evs2)"
      by (metis prod_cases3)
    have "list_all (\<lambda>e. \<not> stops_collaborator e) evs2"
      using fin by (rule Connect_finish_events)
    with evs1 have both: "list_all (\<lambda>e. \<not> stops_collaborator e) (evs1 @ evs2)"
      by simp
    from att est Returned fin
    have "evs = evs1 @ evs2 \<or> (\<exists>ys. evs = (evs1 @ evs2) @ EvSettingsRevert # ys)"
      by (auto simp: Connect_attempt_def Let_def Cleanup_def
               split: result.splits exn.splits)
    with both show ?thesis
      by (auto simp del: append_assoc intro: revert_before_stops_append)
  next
    case (Raised e)
    with att est have "\<exists>ys. evs = evs1 @ EvSettingsRevert # ys"
      by (auto simp: Connect_attempt_def Let_def Cleanup_def split: exn.splits)
    with evs1 show ?thesis
      by (auto intro: revert_before_stops_append)
  next
    case UndefinedBehaviour
    with att est have "evs = evs1"
      by (auto simp: Connect_attempt_def Let_def)
    with evs1 show ?thesis
      by (auto intro: revert_before_stops_append)
  qed
qed

section \<open>The handshake request path\<close>

lemma known_servers_concat:
  "known_servers es = concat (map (\<lambda>e. ''&known_server='' @ serverAddress e) es)"
  by (induction es) (simp_all add: NarrowToTString_def)

section \<open>The claims\<close>

text \<open>
  C1, as the code has it. In every run of \<open>Connect\<close> that makes the post-connect
  handshake request: when the request fails or its response is empty, \<open>Connect\<close> returns
  normally; when the response is present and does not parse, \<open>Connect\<close> throws
  \<open>TryNextServer\<close> after \<open>Cleanup\<close>; in every other case \<open>Connect\<close> returns normally.
\<close>

theorem Connect_post_handshake_outcome:
  assumes run: "Connect env c t io p d = (r, es, c', evs)"
    and post: "EvMakeRequest ONLY_IF_TRANSPORT path ok resp \<in> set evs"
  shows "(\<not> ok \<or> resp = [] \<longrightarrow> r = Returned ()) \<and>
         (EvParseHandshakeResponse resp False \<in> set evs \<longrightarrow>
            r = Raised TryNextServer \<and>
            suffix [EvSettingsRevert, EvTransportStop, EvTransportCleanup, EvLocalProxyDelete] evs) \<and>
         (EvParseHandshakeResponse resp False \<notin> set evs \<longrightarrow> r = Returned ())"
proof -
  have "evs \<noteq> []" using post by auto
  with run have "Connect_attempt env c t es p d = (r, c', evs)"
    by (rule Connect_attempt_of)
  then show ?thesis using post by (rule Connect_attempt_post)
qed

theorem Connect_post_handshake_outcome_witness:
  "EvMakeRequest ONLY_IF_TRANSPORT
     ''/handshake?client_session_id=0F&propagation_channel_id=P1&sponsor_id=S1&client_version=42&server_secret=aa&relay_protocol=SSH&known_server=192.0.2.1''
     False []
     \<in> set (snd (snd (snd (Connect env_no_response conn_new transport_ssh [entry_a] [] False)))) \<and>
   fst (Connect env_no_response conn_new transport_ssh [entry_a] [] False) = Returned ()"
proof -
  let ?run = "Connect env_no_response conn_new transport_ssh [entry_a] [] False"
  let ?path = "''/handshake?client_session_id=0F&propagation_channel_id=P1&sponsor_id=S1&client_version=42&server_secret=aa&relay_protocol=SSH&known_server=192.0.2.1''"
  have post: "EvMakeRequest ONLY_IF_TRANSPORT ?path False [] \<in> set (snd (snd (snd ?run)))"
    by (simp add: model_defs example_defs)
  note concl = Connect_post_handshake_outcome [OF Connect_projections post]
  from concl have "fst ?run = Returned ()"
    by (simp only: simp_thms)
  with post show ?thesis by (intro conjI)
qed

text \<open>The claim as stated fails: the post-connect handshake gets a response that does not
  parse, and \<open>Connect\<close> throws \<open>TryNextServer\<close> after applying the settings and cleaning
  up.\<close>

theorem Connect_post_handshake_malformed_counterexample:
  "fst (Connect env_malformed conn_new transport_ssh [entry_a] [] False) = Raised TryNextServer \<and>
   snd (snd (snd (Connect env_malformed conn_new transport_ssh [entry_a] [] False))) =
     [EvSynchReset, EvTransportConnect, EvLocalProxyNew, EvLocalProxyStart, EvSettingsApply,
      EvMakeRequest ONLY_IF_TRANSPORT
        ''/handshake?client_session_id=0F&propagation_channel_id=P1&sponsor_id=S1&client_version=42&server_secret=aa&relay_protocol=SSH&known_server=192.0.2.1''
        True ''Homepage: x'',
      EvParseHandshakeResponse ''Homepage: x'' False,
      EvSettingsRevert, EvTransportStop, EvTransportCleanup, EvLocalProxyDelete]"
  by (simp add: model_defs example_defs)

text \<open>
  C2. The settings are to be reverted before any \<open>Stop\<close> on the transport or the local
  proxy, on every exit. The exits of \<open>Connect\<close> keep this order
  (\<open>Connect_revert_before_stops\<close>). \<open>WaitForDisconnect\<close> does not: after a successful
  \<open>Connect\<close> it calls \<open>Stop\<close> on the local proxy and on the transport and only then
  runs \<open>Cleanup\<close>, whose first call is the revert.
\<close>

theorem WaitForDisconnect_stops_before_revert:
  "fst (Connect env_ok conn_new transport_ssh [entry_a] [] False) = Returned () \<and>
   snd (snd (WaitForDisconnect env_ok conn_connected)) =
     [EvWaitForMultipleObjects, EvLocalProxyStop, EvTransportStop,
      EvSettingsRevert, EvTransportStop, EvTransportCleanup, EvLocalProxyDelete] \<and>
   \<not> revert_before_stops (snd (snd (WaitForDisconnect env_ok conn_connected)))"
  by (simp add: WaitForDisconnect_def conn_connected_def model_defs example_defs)

text \<open>
  C3. When the filtering step leaves an empty list, \<open>Connect\<close> is to signal an error for
  it instead of going on. The code has no such test. With a multi-connect count of zero
  and a first entry that needs no pre-handshake, \<open>resize(0)\<close> empties the list, and
  \<open>Connect\<close> attaches the transport and enters the try block; there it reads
  \<open>front()\<close> of the empty vector at line 128, which is undefined, unless the leftover
  file cannot be deleted, when it throws the \<open>std::exception\<close> of line 123 first.
\<close>

theorem Connect_filtered_empty_no_error:
  "fst (snd (Connect env_ok conn_new transport_zero [entry_a] [] False)) = [] \<and>
   fst (Connect env_ok conn_new transport_zero [entry_a] [] False) = UndefinedBehaviour \<and>
   Connect env_delete_fails conn_new transport_zero [entry_a] ''rules'' False =
     (Raised (StdException ''TransportConnection::Connect - DeleteFile failed''), [],
      conn_new\<lparr>m_transport := Some transport_zero\<rparr>,
      [EvDeleteFile ''rules'', EvSettingsRevert, EvTransportStop, EvTransportCleanup])"
  by (simp add: model_defs example_defs)

text \<open>
  C4. When the first entry of a non-empty list requires a pre-handshake, the list
  \<open>Connect\<close> leaves to the caller is the original first entry alone, whatever the length
  of the input.
\<close>

theorem Connect_pre_handshake_truncates:
  assumes "io \<noteq> []" and "IsHandshakeRequired t (hd io)"
  shows "fst (snd (Connect env c t io p d)) = [hd io]"
  using assms by (simp add: Connect_entries)

theorem Connect_pre_handshake_truncates_witness:
  "[entry_bare, entry_a, entry_b] \<noteq> [] \<and>
   IsHandshakeRequired transport_ssh (hd [entry_bare, entry_a, entry_b]) \<and>
   fst (snd (Connect env_ok conn_new transport_ssh [entry_bare, entry_a, entry_b] [] False))
     = [entry_bare]"
proof -
  have h1: "[entry_bare, entry_a, entry_b] \<noteq> []" by simp
  have h2: "IsHandshakeRequired transport_ssh (hd [entry_bare, entry_a, entry_b])"
    by (simp add: transport_ssh_def entry_bare_def)
  show ?thesis
    using h1 h2 Connect_pre_handshake_truncates [OF h1 h2, of env_ok conn_new "[]" False]
    by simp
qed

text \<open>
  C5. When the first entry of a non-empty list does not require a pre-handshake, the list
  \<open>Connect\<close> leaves to the caller has no entry that requires one, is no longer than the
  transport's multi-connect count, and is a subsequence of the input in the input's order.
\<close>

theorem Connect_no_pre_handshake_filter:
  assumes "io \<noteq> []" and "\<not> IsHandshakeRequired t (hd io)"
  shows "(\<forall>e \<in> set (fst (snd (Connect env c t io p d))). \<not> IsHandshakeRequired t e) \<and>
         length (fst (snd (Connect env c t io p d))) \<le> GetMultiConnectCount t \<and>
         subseq (fst (snd (Connect env c t io p d))) io"
proof -
  let ?kept = "filter (\<lambda>e. \<not> IsHandshakeRequired t e) io"
  let ?out = "take (GetMultiConnectCount t) ?kept"
  have out: "fst (snd (Connect env c t io p d)) = ?out"
    using assms by (simp add: Connect_entries)
  have none: "\<forall>e \<in> set ?out. \<not> IsHandshakeRequired t e"
  proof
    fix e assume "e \<in> set ?out"
    then have "e \<in> set ?kept" by (rule in_set_takeD)
    then show "\<not> IsHandshakeRequired t e" by simp
  qed
  have len: "length ?out \<le> GetMultiConnectCount t"
    by simp
  have "subseq ?out ?kept"
    by (rule prefix_imp_subseq) (rule take_is_prefix)
  moreover have "subseq ?kept io"
    by (rule subseq_filter_left)
  ultimately have sub: "subseq ?out io"
    by (rule subseq_order.trans)
  show ?thesis
    unfolding out by (intro conjI none len sub)
qed

theorem Connect_no_pre_handshake_filter_witness:
  "[entry_a, entry_bare, entry_b, entry_c] \<noteq> [] \<and>
   \<not> IsHandshakeRequired transport_ssh (hd [entry_a, entry_bare, entry_b, entry_c]) \<and>
   fst (snd (Connect env_ok conn_new transport_ssh [entry_a, entry_bare, entry_b, entry_c]
               [] False)) = [entry_a, entry_b] \<and>
   length (fst (snd (Connect env_ok conn_new transport_ssh
                       [entry_a, entry_bare, entry_b, entry_c] [] False))) \<le> 2 \<and>
   subseq (fst (snd (Connect env_ok conn_new transport_ssh
                       [entry_a, entry_bare, entry_b, entry_c] [] False)))
          [entry_a, entry_bare, entry_b, entry_c]"
proof -
  have h1: "[entry_a, entry_bare, entry_b, entry_c] \<noteq> []" by simp
  have h2: "\<not> IsHandshakeRequired transport_ssh (hd [entry_a, entry_bare, entry_b, entry_c])"
    by (simp add: transport_ssh_def entry_a_def)
  have out: "fst (snd (Connect env_ok conn_new transport_ssh
                         [entry_a, entry_bare, entry_b, entry_c] [] False))
             = [entry_a, entry_b]"
    by (simp add: Connect_entries transport_ssh_def entry_a_def entry_b_def entry_c_def
          entry_bare_def)
  have n: "GetMultiConnectCount transport_ssh = 2"
    by (simp add: transport_ssh_def)
  note filtered = Connect_no_pre_handshake_filter [OF h1 h2, of env_ok conn_new "[]" False]
  from filtered have len: "length (fst (snd (Connect env_ok conn_new transport_ssh
                       [entry_a, entry_bare, entry_b, entry_c] [] False))) \<le> 2"
    unfolding n by (rule conjunct1 [OF conjunct2])
  from filtered have sub: "subseq (fst (snd (Connect env_ok conn_new transport_ssh
                       [entry_a, entry_bare, entry_b, entry_c] [] False)))
          [entry_a, entry_bare, entry_b, entry_c]"
    by (rule conjunct2 [OF conjunct2])
  show ?thesis
    by (intro conjI h1 h2 out len sub)
qed

text \<open>
  C6, as the code has it. After every invocation of \<open>Cleanup\<close> the local-proxy handle is
  unset and the transport handle is what it was before the call. The calls \<open>Cleanup\<close>
  makes are, in this order: the revert of the settings; \<open>Stop\<close> and then \<open>Cleanup\<close> on
  the transport when one is attached; the deletion of the local proxy when one exists.
\<close>

theorem Cleanup_handles:
  "m_localProxy (fst (Cleanup c)) = None \<and>
   m_transport (fst (Cleanup c)) = m_transport c \<and>
   snd (Cleanup c) =
     [EvSettingsRevert]
     @ (if m_transport c = None then [] else [EvTransportStop, EvTransportCleanup])
     @ (if m_localProxy c = None then [] else [EvLocalProxyDelete])"
  by (simp add: Cleanup_def split: option.splits)

text \<open>The claim as stated fails on the object a successful \<open>Connect\<close> leaves: after
  \<open>Cleanup\<close> the transport is still attached, and a further \<open>Connect\<close> on the same object,
  with no reconstruction, returns normally.\<close>

theorem Cleanup_keeps_transport_counterexample:
  "m_transport (fst (Cleanup conn_connected)) \<noteq> None \<and>
   fst (Connect env_ok (fst (Cleanup conn_connected)) transport_ssh [entry_a] [] False)
     = Returned ()"
  by (simp add: conn_connected_def model_defs example_defs)

text \<open>
  C7. In every run of \<open>Connect\<close> that calls the local proxy's \<open>Start\<close> (which the code
  does only after the transport's connect has returned) and gets failure back,
  \<open>Connect\<close> throws the worker error \<open>LocalProxy::Start failed\<close>, the system proxy
  settings were not applied in that run, and the run ends with \<open>Cleanup\<close>: revert, the
  transport's \<open>Stop\<close> and \<open>Cleanup\<close>, and the deletion of the local proxy.
\<close>

theorem Connect_local_proxy_start_fails:
  assumes run: "Connect env c t io p d = (r, es, c', evs)"
    and start: "EvLocalProxyStart \<in> set evs"
    and fails: "\<not> LocalProxy_Start env"
  shows "r = Raised (WorkerError ''LocalProxy::Start failed'') \<and>
         EvSettingsApply \<notin> set evs \<and>
         suffix [EvLocalProxyNew, EvLocalProxyStart, EvSettingsRevert, EvTransportStop,
                 EvTransportCleanup, EvLocalProxyDelete] evs \<and>
         m_localProxy c' = None"
proof -
  have "evs \<noteq> []" using start by auto
  with run have "Connect_attempt env c t es p d = (r, c', evs)"
    by (rule Connect_attempt_of)
  then show ?thesis using start fails by (rule Connect_attempt_start_fails)
qed

theorem Connect_local_proxy_start_fails_witness:
  "EvLocalProxyStart
     \<in> set (snd (snd (snd (Connect env_start_fails conn_new transport_ssh [entry_a] [] False)))) \<and>
   \<not> LocalProxy_Start env_start_fails \<and>
   fst (Connect env_start_fails conn_new transport_ssh [entry_a] [] False)
     = Raised (WorkerError ''LocalProxy::Start failed'') \<and>
   EvSettingsApply
     \<notin> set (snd (snd (snd (Connect env_start_fails conn_new transport_ssh [entry_a] [] False)))) \<and>
   snd (snd (snd (Connect env_start_fails conn_new transport_ssh [entry_a] [] False)))
     = [EvSynchReset, EvTransportConnect, EvLocalProxyNew, EvLocalProxyStart, EvSettingsRevert,
        EvTransportStop, EvTransportCleanup, EvLocalProxyDelete]"
proof -
  let ?run = "Connect env_start_fails conn_new transport_ssh [entry_a] [] False"
  have evs: "snd (snd (snd ?run))
     = [EvSynchReset, EvTransportConnect, EvLocalProxyNew, EvLocalProxyStart, EvSettingsRevert,
        EvTransportStop, EvTransportCleanup, EvLocalProxyDelete]"
    by (simp add: model_defs example_defs)
  have start: "EvLocalProxyStart \<in> set (snd (snd (snd ?run)))"
    unfolding evs by simp
  have fails: "\<not> LocalProxy_Start env_start_fails"
    by (simp add: example_defs)
  note concl = Connect_local_proxy_start_fails [OF Connect_projections start fails]
  show ?thesis
    by (intro conjI start fails evs concl [THEN conjunct1]
          concl [THEN conjunct2, THEN conjunct1])
qed

text \<open>
  C8. With a transport attached, the handshake request path for a session and a list of
  server entries is \<open>/handshake?client_session_id=\<close>, the session's client session id,
  \<open>&propagation_channel_id=\<close>, \<open>&sponsor_id=\<close>, \<open>&client_version=\<close> with the embedded
  values, \<open>&server_secret=\<close> with the session's web server secret, \<open>&relay_protocol=\<close>
  with the transport's protocol name, and then one \<open>&known_server=\<close> component with the
  address of each entry of the list, in the list's order.
\<close>

theorem GetHandshakeRequestPath_format:
  assumes "m_transport c = Some t"
  shows "GetHandshakeRequestPath env c s es =
     Some (''/handshake?client_session_id='' @ GetClientSessionID s
           @ ''&propagation_channel_id='' @ PROPAGATION_CHANNEL_ID env
           @ ''&sponsor_id='' @ SPONSOR_ID env
           @ ''&client_version='' @ CLIENT_VERSION env
           @ ''&server_secret='' @ GetWebServerSecret s
           @ ''&relay_protocol='' @ GetTransportProtocolName t
           @ concat (map (\<lambda>e. ''&known_server='' @ serverAddress e) es))"
  using assms
  by (simp add: GetHandshakeRequestPath_def HTTP_HANDSHAKE_REQUEST_PATH_def NarrowToTString_def
      known_servers_concat)

theorem GetHandshakeRequestPath_format_witness:
  "m_transport conn_connected = Some transport_ssh \<and>
   GetHandshakeRequestPath env_ok conn_connected (session_of entry_a) [entry_a, entry_b, entry_c] =
     Some ''/handshake?client_session_id=0F&propagation_channel_id=P1&sponsor_id=S1&client_version=42&server_secret=aa&relay_protocol=SSH&known_server=192.0.2.1&known_server=192.0.2.2&known_server=192.0.2.3''"
proof -
  have h: "m_transport conn_connected = Some transport_ssh"
    by (simp add: conn_connected_def model_defs example_defs)
  have "GetHandshakeRequestPath env_ok conn_connected (session_of entry_a)
          [entry_a, entry_b, entry_c] =
     Some ''/handshake?client_session_id=0F&propagation_channel_id=P1&sponsor_id=S1&client_version=42&server_secret=aa&relay_protocol=SSH&known_server=192.0.2.1&known_server=192.0.2.2&known_server=192.0.2.3''"
    unfolding GetHandshakeRequestPath_format [OF h]
    by (simp add: example_defs GetClientSessionID_def GetWebServerSecret_def)
  with h show ?thesis by (intro conjI)
qed

text \<open>
  C9. When the first entry requires a pre-handshake and the caller disallows
  handshakes, \<open>Connect\<close> throws \<open>TryNextServer\<close>, the caller's list is the original first
  entry alone, and nothing else has happened: no collaborator was called, \<open>Cleanup\<close>
  included, and the object is as it was.
\<close>

theorem Connect_disallowed_pre_handshake:
  assumes "io \<noteq> []" and "IsHandshakeRequired t (hd io)"
  shows "Connect env c t io p True = (Raised TryNextServer, [hd io], c, [])"
  using assms by (simp add: Connect_def vector_resize_1)

theorem Connect_disallowed_pre_handshake_witness:
  "[entry_bare, entry_a] \<noteq> [] \<and> IsHandshakeRequired transport_ssh (hd [entry_bare, entry_a]) \<and>
   Connect env_ok conn_new transport_ssh [entry_bare, entry_a] [] True
     = (Raised TryNextServer, [entry_bare], conn_new, [])"
proof -
  have h1: "[entry_bare, entry_a] \<noteq> []" by simp
  have h2: "IsHandshakeRequired transport_ssh (hd [entry_bare, entry_a])"
    by (simp add: transport_ssh_def entry_bare_def)
  show ?thesis
    using h1 h2 Connect_disallowed_pre_handshake [OF h1 h2, of env_ok conn_new "[]"]
    by (simp only: list.sel simp_thms)
qed

text \<open>
  C10. When the wait fails (its result is above \<open>WAIT_OBJECT_0 + 1\<close>) on an object with
  both collaborators attached, \<open>WaitForDisconnect\<close> has called \<open>Stop\<close> on the local proxy
  and on the transport and run all of \<open>Cleanup\<close> when it throws the worker error.
\<close>

theorem WaitForDisconnect_wait_failed:
  assumes "m_transport c = Some t" and "m_localProxy c = Some lp"
    and "WaitForMultipleObjects env > 1"
  shows "WaitForDisconnect env c =
     (Raised (WorkerError ''WaitForMultipleObjects failed''), fst (Cleanup c),
      [EvWaitForMultipleObjects, EvLocalProxyStop, EvTransportStop,
       EvSettingsRevert, EvTransportStop, EvTransportCleanup, EvLocalProxyDelete])"
  using assms by (simp add: WaitForDisconnect_def Cleanup_def WAIT_OBJECT_0_def)

theorem WaitForDisconnect_wait_failed_witness:
  "m_transport conn_connected = Some transport_ssh \<and>
   m_localProxy conn_connected =
     Some \<lparr>lp_sessionInfo = (session_of entry_a)\<lparr>m_handshakeFields := [''Homepage: x'']\<rparr>,
           lp_parentPort = 1080, lp_splitTunnelingFilePath = []\<rparr> \<and>
   WaitForMultipleObjects env_wait_failed > 1 \<and>
   fst (WaitForDisconnect env_wait_failed conn_connected)
     = Raised (WorkerError ''WaitForMultipleObjects failed'') \<and>
   snd (snd (WaitForDisconnect env_wait_failed conn_connected)) =
     [EvWaitForMultipleObjects, EvLocalProxyStop, EvTransportStop,
      EvSettingsRevert, EvTransportStop, EvTransportCleanup, EvLocalProxyDelete]"
proof -
  have h1: "m_transport conn_connected = Some transport_ssh"
    by (simp add: conn_connected_def model_defs example_defs)
  have h2: "m_localProxy conn_connected =
     Some \<lparr>lp_sessionInfo = (session_of entry_a)\<lparr>m_handshakeFields := [''Homepage: x'']\<rparr>,
           lp_parentPort = 1080, lp_splitTunnelingFilePath = []\<rparr>"
    by (simp add: conn_connected_def model_defs example_defs)
  have h3: "WaitForMultipleObjects env_wait_failed > 1"
    by (simp add: example_defs)
  note run = WaitForDisconnect_wait_failed [OF h1 h2 h3]
  have r: "fst (WaitForDisconnect env_wait_failed conn_connected)
     = Raised (WorkerError ''WaitForMultipleObjects failed'')"
    unfolding run by (simp only: fst_conv)
  have evs: "snd (snd (WaitForDisconnect env_wait_failed conn_connected)) =
     [EvWaitForMultipleObjects, EvLocalProxyStop, EvTransportStop,
      EvSettingsRevert, EvTransportStop, EvTransportCleanup, EvLocalProxyDelete]"
    unfolding run by (simp only: snd_conv)
  show ?thesis
    by (intro conjI h1 h2 h3 r evs)
qed

end
